theory Spec2Isabelle
  imports Complex_Main
begin

section \<open>Data model (src/types/index.ts)\<close>

text \<open>
  The game store of \<^verbatim>\<open>src/lib/gemini.ts\<close> keeps one user's gamification state. The
  TypeScript interfaces become records. JavaScript numbers that hold XP, levels, streaks,
  progress and counters are whole numbers throughout the repository, so they are
  \<^typ>\<open>int\<close> here; the streak multiplier is a fraction (\<^typ>\<open>rat\<close>). The multipliers
  1.25, 1.5, 1.75 and 2 are binary fractions, so the product with a whole number is the
  exact one in the source as well.
  Field names shared by several interfaces carry a suffix: \<open>_u\<close> for \<open>User\<close>,
  \<open>_b\<close> for \<open>Badge\<close>, \<open>_m\<close> for \<open>Mission\<close>. An optional field
  (\<open>avatar?\<close>, \<open>unlockedAt?\<close>) is an \<open>option\<close>.
\<close>

record User =
  id_u :: string
  name_u :: string
  avatar :: "string option"
  xp :: int
  level :: int
  streak :: int
  lastActiveDate :: string
  badges_u :: "string list"
  createdAt :: string

record Badge =
  id_b :: string
  name_b :: string
  description_b :: string
  icon :: string
  requirement :: string
  xpReward_b :: int
  unlocked :: bool
  unlockedAt :: "string option"

text \<open>The mission categories \<open>'quiz' | 'flashcard' | 'doubt' | 'streak' | 'study'\<close>.\<close>

datatype MissionType = Quiz | Flashcard | Doubt | Streak | Study

record Mission =
  id_m :: string
  title :: string
  description_m :: string
  type_m :: MissionType
  target :: int
  progress :: int
  xpReward_m :: int
  completed :: bool

datatype XPEventType =
  correct_step | submit_step | complete_quiz | perfect_quiz | review_flashcard
  | complete_mission | streak_bonus

record Stats =
  quizzesCompleted :: int
  flashcardsReviewed :: int
  doubtsAsked :: int
  stepsSubmitted :: int
  correctSteps :: int
  studyPlansCreated :: int
  imagesUploaded :: int

text \<open>The keys of \<open>GameState['stats']\<close>, the argument type of \<open>incrementStat\<close>.\<close>

datatype StatKey =
  QuizzesCompleted | FlashcardsReviewed | DoubtsAsked | StepsSubmitted | CorrectSteps
  | StudyPlansCreated | ImagesUploaded

record GameState =
  user :: User
  badges :: "Badge list"
  missions :: "Mission list"
  stats :: Stats

text \<open>What \<open>addXP\<close> returns; \<open>newLevel\<close> is \<open>undefined\<close> unless the level rose.\<close>

record XPResult =
  xpGained :: int
  leveledUp :: bool
  newLevel :: "int option"

section \<open>Catalogs\<close>

definition mkBadge :: "string \<Rightarrow> string \<Rightarrow> string \<Rightarrow> string \<Rightarrow> string \<Rightarrow> int \<Rightarrow> Badge" where
  "mkBadge i n d ic r x =
     \<lparr>id_b = i, name_b = n, description_b = d, icon = ic, requirement = r, xpReward_b = x,
      unlocked = False, unlockedAt = None\<rparr>"

text \<open>The icons are emoji in the source; they are kept as their UTF-8 bytes.\<close>

definition BADGES :: "Badge list" where
  "BADGES =
    [mkBadge ''first_step'' ''First Steps'' ''Submit your first solution step''
       [CHR 0xF0, CHR 0x9F, CHR 0x8E, CHR 0xAF] ''Submit 1 step'' 25,
     mkBadge ''correct_step'' ''Sharp Mind'' ''Get your first correct step''
       [CHR 0xE2, CHR 0x9C, CHR 0x85] ''Get 1 correct step'' 50,
     mkBadge ''quiz_master'' ''Quiz Master'' ''Complete 5 quizzes''
       [CHR 0xF0, CHR 0x9F, CHR 0x93, CHR 0x9D] ''Complete 5 quizzes'' 100,
     mkBadge ''perfect_score'' ''Perfectionist'' ''Get a perfect quiz score''
       [CHR 0xF0, CHR 0x9F, CHR 0x92, CHR 0xAF] ''Score 100% on a quiz'' 150,
     mkBadge ''flashcard_fan'' ''Memory Master'' ''Review 50 flashcards''
       [CHR 0xF0, CHR 0x9F, CHR 0xA7, CHR 0xA0] ''Review 50 flashcards'' 75,
     mkBadge ''week_streak'' ''On Fire'' ''Maintain a 7-day streak''
       [CHR 0xF0, CHR 0x9F, CHR 0x94, CHR 0xA5] ''7-day streak'' 200,
     mkBadge ''study_planner'' ''Organized Learner'' ''Create your first study plan''
       [CHR 0xF0, CHR 0x9F, CHR 0x93, CHR 0x85] ''Create 1 study plan'' 50,
     mkBadge ''doubt_solver'' ''Problem Solver'' ''Solve 10 doubts with AI tutor''
       [CHR 0xF0, CHR 0x9F, CHR 0x92, CHR 0xA1] ''Solve 10 doubts'' 100,
     mkBadge ''level_10'' ''Rising Star'' ''Reach level 10''
       [CHR 0xE2, CHR 0xAD, CHR 0x90] ''Reach level 10'' 250,
     mkBadge ''ocr_explorer'' ''OCR Explorer'' ''Upload 5 images for text extraction''
       [CHR 0xF0, CHR 0x9F, CHR 0x93, CHR 0xB8] ''Upload 5 images'' 50]"

text \<open>
  \<open>DAILY_MISSIONS.map(m => ({ ...m, progress: 0, completed: false }))\<close>: the daily
  missions as the store holds them at the start of a day.
\<close>

definition mkMission :: "string \<Rightarrow> string \<Rightarrow> string \<Rightarrow> MissionType \<Rightarrow> int \<Rightarrow> int \<Rightarrow> Mission" where
  "mkMission i t d ty tg x =
     \<lparr>id_m = i, title = t, description_m = d, type_m = ty, target = tg, progress = 0,
      xpReward_m = x, completed = False\<rparr>"

definition DAILY_MISSIONS :: "Mission list" where
  "DAILY_MISSIONS =
    [mkMission ''mission_quiz'' ''Quiz Champion'' ''Complete 2 quizzes today'' Quiz 2 75,
     mkMission ''mission_flashcard'' ''Flash Review'' ''Review 15 flashcards'' Flashcard 15 50,
     mkMission ''mission_doubt'' ''Curious Mind'' ''Ask 3 questions to the AI tutor'' Doubt 3 60,
     mkMission ''mission_study'' ''Focused Learner'' ''Complete 1 study session'' Study 1 40]"

fun XP_REWARDS :: "XPEventType \<Rightarrow> int" where
  "XP_REWARDS correct_step = 10"
| "XP_REWARDS submit_step = 2"
| "XP_REWARDS complete_quiz = 50"
| "XP_REWARDS perfect_quiz = 25"
| "XP_REWARDS review_flashcard = 3"
| "XP_REWARDS complete_mission = 0"
| "XP_REWARDS streak_bonus = 0"

text \<open>
  The store's initial state. The two date strings come from the clock when the store is
  created: \<open>today\<close> is \<open>new Date().toISOString().split('T')[0]\<close>.
\<close>

definition initialState :: "string \<Rightarrow> string \<Rightarrow> GameState" where
  "initialState today nowISO =
     \<lparr>user = \<lparr>id_u = ''user-1'', name_u = ''Learner'', avatar = None, xp = 0, level = 1,
               streak = 0, lastActiveDate = today, badges_u = [], createdAt = nowISO\<rparr>,
      badges = BADGES,
      missions = DAILY_MISSIONS,
      stats = \<lparr>quizzesCompleted = 0, flashcardsReviewed = 0, doubtsAsked = 0,
                stepsSubmitted = 0, correctSteps = 0, studyPlansCreated = 0,
                imagesUploaded = 0\<rparr>\<rparr>"

section \<open>The operations of the store\<close>

text \<open>
  Every action of the store reads the state with \<open>get()\<close> and writes some of its fields
  with \<open>set({ ... })\<close>, which leaves the other fields as they are. Here an action takes
  the state and returns the new state, with its result where it has one. What an action
  reads from the clock is an argument: \<open>now\<close> is the timestamp that \<open>unlockBadge\<close>
  records (within one action at most one unlock of a given badge succeeds).
\<close>

text \<open>
  \<open>Math.floor(Math.sqrt(xp / 100)) + 1\<close>. The square root is the real one; for a
  negative argument JavaScript yields \<open>NaN\<close>, so the model is meant for \<open>xp \<ge> 0\<close>
  only, and every statement about the value of a level below says where it needs that.
\<close>

definition calculateLevel :: "int \<Rightarrow> int" where
  "calculateLevel x = \<lfloor>sqrt (real_of_int x / 100)\<rfloor> + 1"

definition getStreakMultiplier :: "GameState \<Rightarrow> rat" where
  "getStreakMultiplier state =
     (if streak (user state) \<ge> 30 then 2
      else if streak (user state) \<ge> 14 then 7 / 4
      else if streak (user state) \<ge> 7 then 3 / 2
      else if streak (user state) \<ge> 3 then 5 / 4
      else 1)"

text \<open>
  \<open>unlockBadge\<close>. \<open>now\<close> is the clock's \<open>new Date().toISOString()\<close>. The store is
  passed in and returned; \<open>null\<close> is \<open>None\<close>. \<open>Array.find\<close> returns the first badge
  with the id, \<open>Array.map\<close> updates every badge with it.
\<close>

definition unlockBadge :: "string \<Rightarrow> string \<Rightarrow> GameState \<Rightarrow> Badge option \<times> GameState" where
  "unlockBadge now badgeId state =
     (case find (\<lambda>b. id_b b = badgeId) (badges state) of
        None \<Rightarrow> (None, state)
      | Some badge \<Rightarrow>
          if unlocked badge then (None, state)
          else
            let updatedBadges =
                  map (\<lambda>b. if id_b b = badgeId
                            then b\<lparr>unlocked := True, unlockedAt := Some now\<rparr> else b)
                      (badges state)
            in (Some (badge\<lparr>unlocked := True\<rparr>),
                state\<lparr>badges := updatedBadges,
                      user := (user state)\<lparr>badges_u := badges_u (user state) @ [badgeId],
                                            xp := xp (user state) + xpReward_b badge\<rparr>\<rparr>))"

text \<open>
  \<open>addXP\<close>. \<open>customAmount ?? XP_REWARDS[type]\<close> takes the override whenever one is
  given (also when it is 0). The level-10 badge is unlocked on the store as \<open>set\<close> left it.
  The locals \<open>xpGained\<close>, \<open>newLevel\<close> and \<open>leveledUp\<close> of the source are
  \<open>gained\<close>, \<open>newLvl\<close> and \<open>up\<close> here, since the result's fields have their
  names; \<open>type\<close> is \<open>ty\<close>.
\<close>

definition addXP :: "string \<Rightarrow> XPEventType \<Rightarrow> int option \<Rightarrow> GameState \<Rightarrow> XPResult \<times> GameState" where
  "addXP now ty customAmount state =
     (let baseXP = (case customAmount of Some a \<Rightarrow> a | None \<Rightarrow> XP_REWARDS ty);
          multiplier = getStreakMultiplier state;
          gained = \<lfloor>of_int baseXP * multiplier\<rfloor>;
          newXP = xp (user state) + gained;
          newLvl = calculateLevel newXP;
          up = (newLvl > level (user state));
          state1 = state\<lparr>user := (user state)\<lparr>xp := newXP, level := newLvl\<rparr>\<rparr>;
          state2 = (if newLvl \<ge> 10 then snd (unlockBadge now ''level_10'' state1) else state1)
      in (\<lparr>xpGained = gained, leveledUp = up, newLevel = (if up then Some newLvl else None)\<rparr>,
          state2))"

text \<open>
  \<open>updateStreak\<close>. \<open>today\<close> and \<open>yesterdayStr\<close> are the two date strings the function
  computes from the clock (both \<open>toISOString().split('T')[0]\<close>, the second after
  \<open>setDate(getDate() - 1)\<close>); \<open>now\<close> is the timestamp \<open>unlockBadge\<close> reads. Nothing
  is assumed of the two strings: the section on the daily streak says which values the
  clock gives.
\<close>

definition updateStreak :: "string \<Rightarrow> string \<Rightarrow> string \<Rightarrow> GameState \<Rightarrow> GameState" where
  "updateStreak today yesterdayStr now state =
     (let lastActive = lastActiveDate (user state);
          newStreak = (if lastActive = yesterdayStr then streak (user state) + 1
                       else if lastActive \<noteq> today then 1
                       else streak (user state));
          state1 = state\<lparr>user := (user state)\<lparr>streak := newStreak, lastActiveDate := today\<rparr>\<rparr>
      in if newStreak \<ge> 7 then snd (unlockBadge now ''week_streak'' state1) else state1)"

text \<open>
  \<open>updateMissionProgress\<close>. The callback of \<open>state.missions.map\<close> returns the new
  mission and, through \<open>get().addXP\<close>, changes the store; \<open>mapMissions\<close> runs it over the
  list from left to right, passing the store along. The final \<open>set({ missions })\<close>
  replaces the missions of the store as the callbacks left it. The amount is always
  passed; the source's default is 1.
\<close>

definition missionCallback ::
  "string \<Rightarrow> MissionType \<Rightarrow> int \<Rightarrow> Mission \<Rightarrow> GameState \<Rightarrow> Mission \<times> GameState" where
  "missionCallback now ty amount m store =
     (if type_m m = ty \<and> \<not> completed m then
        let newProgress = min (progress m + amount) (target m);
            completedNow = (newProgress \<ge> target m);
            store1 = (if completedNow \<and> \<not> completed m
                      then snd (addXP now complete_mission (Some (xpReward_m m)) store)
                      else store)
        in (m\<lparr>progress := newProgress, completed := completedNow\<rparr>, store1)
      else (m, store))"

fun mapMissions ::
  "string \<Rightarrow> MissionType \<Rightarrow> int \<Rightarrow> Mission list \<Rightarrow> GameState \<Rightarrow> Mission list \<times> GameState" where
  "mapMissions now ty amount [] store = ([], store)"
| "mapMissions now ty amount (m # ms) store =
     (let (m1, store1) = missionCallback now ty amount m store;
          (ms1, store2) = mapMissions now ty amount ms store1
      in (m1 # ms1, store2))"

definition updateMissionProgress :: "string \<Rightarrow> MissionType \<Rightarrow> int \<Rightarrow> GameState \<Rightarrow> GameState" where
  "updateMissionProgress now ty amount state =
     (let (updatedMissions, store) = mapMissions now ty amount (missions state) state
      in store\<lparr>missions := updatedMissions\<rparr>)"

definition resetDailyMissions :: "GameState \<Rightarrow> GameState" where
  "resetDailyMissions state = state\<lparr>missions := DAILY_MISSIONS\<rparr>"

text \<open>\<open>state.stats[stat]\<close> and \<open>{ ...state.stats, [stat]: v }\<close>.\<close>

fun getStat :: "StatKey \<Rightarrow> Stats \<Rightarrow> int" where
  "getStat QuizzesCompleted st = quizzesCompleted st"
| "getStat FlashcardsReviewed st = flashcardsReviewed st"
| "getStat DoubtsAsked st = doubtsAsked st"
| "getStat StepsSubmitted st = stepsSubmitted st"
| "getStat CorrectSteps st = correctSteps st"
| "getStat StudyPlansCreated st = studyPlansCreated st"
| "getStat ImagesUploaded st = imagesUploaded st"

fun setStat :: "StatKey \<Rightarrow> int \<Rightarrow> Stats \<Rightarrow> Stats" where
  "setStat QuizzesCompleted v st = st\<lparr>quizzesCompleted := v\<rparr>"
| "setStat FlashcardsReviewed v st = st\<lparr>flashcardsReviewed := v\<rparr>"
| "setStat DoubtsAsked v st = st\<lparr>doubtsAsked := v\<rparr>"
| "setStat StepsSubmitted v st = st\<lparr>stepsSubmitted := v\<rparr>"
| "setStat CorrectSteps v st = st\<lparr>correctSteps := v\<rparr>"
| "setStat StudyPlansCreated v st = st\<lparr>studyPlansCreated := v\<rparr>"
| "setStat ImagesUploaded v st = st\<lparr>imagesUploaded := v\<rparr>"

text \<open>\<open>incrementStat\<close>: the seven checks run in the source's order, each on the store
  the previous one left.\<close>

definition incrementStat :: "string \<Rightarrow> StatKey \<Rightarrow> GameState \<Rightarrow> GameState" where
  "incrementStat now stat state =
     (let newStats = setStat stat (getStat stat (stats state) + 1) (stats state);
          s0 = state\<lparr>stats := newStats\<rparr>;
          s1 = (if stat = StepsSubmitted \<and> stepsSubmitted newStats = 1
                then snd (unlockBadge now ''first_step'' s0) else s0);
          s2 = (if stat = CorrectSteps \<and> correctSteps newStats = 1
                then snd (unlockBadge now ''correct_step'' s1) else s1);
          s3 = (if stat = QuizzesCompleted \<and> quizzesCompleted newStats \<ge> 5
                then snd (unlockBadge now ''quiz_master'' s2) else s2);
          s4 = (if stat = FlashcardsReviewed \<and> flashcardsReviewed newStats \<ge> 50
                then snd (unlockBadge now ''flashcard_fan'' s3) else s3);
          s5 = (if stat = StudyPlansCreated \<and> studyPlansCreated newStats = 1
                then snd (unlockBadge now ''study_planner'' s4) else s4);
          s6 = (if stat = DoubtsAsked \<and> doubtsAsked newStats \<ge> 10
                then snd (unlockBadge now ''doubt_solver'' s5) else s5);
          s7 = (if stat = ImagesUploaded \<and> imagesUploaded newStats \<ge> 5
                then snd (unlockBadge now ''ocr_explorer'' s6) else s6)
      in s7)"

section \<open>Example states\<close>

text \<open>A store as it is created on 10 March 2024, and a store with its streak set.\<close>

definition exampleState :: GameState where
  "exampleState = initialState ''2024-03-10'' ''2024-03-10T09:00:00.000Z''"

definition withStreak :: "int \<Rightarrow> GameState \<Rightarrow> GameState" where
  "withStreak n state = state\<lparr>user := (user state)\<lparr>streak := n\<rparr>\<rparr>"

section \<open>The threshold table of the specification\<close>

text \<open>
  The specification gives \<open>incrementCounter\<close> as a table: the counter, the badge it
  unlocks, the threshold and the comparison ("equals" for first-occurrence badges, "at
  least" for cumulative ones). These definitions follow the table's words; the source's
  \<open>incrementStat\<close> above is compared with them.
\<close>

fun thresholdBadge_spec :: "StatKey \<Rightarrow> string" where
  "thresholdBadge_spec StepsSubmitted = ''first_step''"
| "thresholdBadge_spec CorrectSteps = ''correct_step''"
| "thresholdBadge_spec QuizzesCompleted = ''quiz_master''"
| "thresholdBadge_spec FlashcardsReviewed = ''flashcard_fan''"
| "thresholdBadge_spec StudyPlansCreated = ''study_planner''"
| "thresholdBadge_spec DoubtsAsked = ''doubt_solver''"
| "thresholdBadge_spec ImagesUploaded = ''ocr_explorer''"

fun thresholdMet_spec :: "StatKey \<Rightarrow> int \<Rightarrow> bool" where
  "thresholdMet_spec StepsSubmitted n = (n = 1)"
| "thresholdMet_spec CorrectSteps n = (n = 1)"
| "thresholdMet_spec QuizzesCompleted n = (n \<ge> 5)"
| "thresholdMet_spec FlashcardsReviewed n = (n \<ge> 50)"
| "thresholdMet_spec StudyPlansCreated n = (n = 1)"
| "thresholdMet_spec DoubtsAsked n = (n \<ge> 10)"
| "thresholdMet_spec ImagesUploaded n = (n \<ge> 5)"

definition incrementCounter_spec :: "string \<Rightarrow> StatKey \<Rightarrow> GameState \<Rightarrow> GameState" where
  "incrementCounter_spec now stat state =
     (let counted = state\<lparr>stats := setStat stat (getStat stat (stats state) + 1) (stats state)\<rparr>
      in if thresholdMet_spec stat (getStat stat (stats counted))
         then snd (unlockBadge now (thresholdBadge_spec stat) counted)
         else counted)"

section \<open>Missions over a day\<close>

text \<open>
  The callback of \<open>updateMissionProgress\<close> in two parts: the mission it returns
  (\<open>missionStep\<close>) and the condition under which it calls \<open>addXP\<close>
  (\<open>awardsXP\<close>: the mission has the category, is not completed, and the clamped new
  progress reaches the target). Lemma \<open>missionCallback_eq\<close> below shows that the callback
  is exactly these two.
\<close>

definition missionStep :: "MissionType \<Rightarrow> int \<Rightarrow> Mission \<Rightarrow> Mission" where
  "missionStep ty amount m =
     (if type_m m = ty \<and> \<not> completed m
      then m\<lparr>progress := min (progress m + amount) (target m),
             completed := (min (progress m + amount) (target m) \<ge> target m)\<rparr>
      else m)"

definition awardsXP :: "MissionType \<Rightarrow> int \<Rightarrow> Mission \<Rightarrow> bool" where
  "awardsXP ty amount m =
     (type_m m = ty \<and> \<not> completed m \<and> min (progress m + amount) (target m) \<ge> target m)"

text \<open>
  A day is a sequence of \<open>updateMissionProgress\<close> calls, each with its category and
  amount. \<open>missionAfter\<close> follows one mission through the calls, and \<open>awardCount\<close>
  counts the calls at which its callback calls \<open>addXP\<close>.
\<close>

fun runCalls :: "string \<Rightarrow> (MissionType \<times> int) list \<Rightarrow> GameState \<Rightarrow> GameState" where
  "runCalls now [] state = state"
| "runCalls now ((ty, amount) # calls) state =
     runCalls now calls (updateMissionProgress now ty amount state)"

fun missionAfter :: "(MissionType \<times> int) list \<Rightarrow> Mission \<Rightarrow> Mission" where
  "missionAfter [] m = m"
| "missionAfter ((ty, amount) # calls) m = missionAfter calls (missionStep ty amount m)"

fun awardCount :: "(MissionType \<times> int) list \<Rightarrow> Mission \<Rightarrow> nat" where
  "awardCount [] m = 0"
| "awardCount ((ty, amount) # calls) m =
     (if awardsXP ty amount m then 1 else 0) + awardCount calls (missionStep ty amount m)"

text \<open>
  A mission as the data model has it: progress within the target, and completed exactly
  when progress is at the target. Every mission of \<open>DAILY_MISSIONS\<close> starts so.
\<close>

definition wfMission :: "Mission \<Rightarrow> bool" where
  "wfMission m = (progress m \<le> target m \<and> (completed m = (progress m = target m)))"

text \<open>
  The reward that \<open>unlockBadge\<close> would add for a badge: its \<open>xpReward\<close> while the badge
  is found and locked, and nothing otherwise.
\<close>

definition pendingReward :: "string \<Rightarrow> GameState \<Rightarrow> int" where
  "pendingReward badgeId state =
     (case find (\<lambda>b. id_b b = badgeId) (badges state) of
        None \<Rightarrow> 0
      | Some b \<Rightarrow> if unlocked b then 0 else xpReward_b b)"

section \<open>Badges\<close>

lemma find_map_unlock_same:
  "find (\<lambda>b. id_b b = k) bs = Some b \<Longrightarrow>
   find (\<lambda>b. id_b b = k)
     (map (\<lambda>b. if id_b b = k then b\<lparr>unlocked := True, unlockedAt := Some now\<rparr> else b) bs)
     = Some (b\<lparr>unlocked := True, unlockedAt := Some now\<rparr>)"
  by (induction bs) (auto split: if_splits)

lemma find_map_unlock_other:
  "k' \<noteq> k \<Longrightarrow>
   find (\<lambda>b. id_b b = k')
     (map (\<lambda>b. if id_b b = k then b\<lparr>unlocked := True, unlockedAt := Some now\<rparr> else b) bs)
     = find (\<lambda>b. id_b b = k') bs"
  by (induction bs) (auto split: if_splits)

lemma find_BADGES_quiz_master:
  "find (\<lambda>b. id_b b = ''quiz_master'') BADGES = Some (BADGES ! 2)"
  by (simp add: BADGES_def mkBadge_def)

lemma BADGES_quiz_master:
  "xpReward_b (BADGES ! 2) = 100" "\<not> unlocked (BADGES ! 2)" "id_b (BADGES ! 2) = ''quiz_master''"
  by (simp_all add: BADGES_def mkBadge_def)

lemma find_BADGES_unknown: "find (\<lambda>b. id_b b = ''no_such_badge'') BADGES = None"
  by (simp add: BADGES_def mkBadge_def)

lemma unlockBadge_level: "level (user (snd (unlockBadge now badgeId state))) = level (user state)"
  by (simp add: unlockBadge_def Let_def split: option.splits)

lemma unlockBadge_streak: "streak (user (snd (unlockBadge now badgeId state))) = streak (user state)"
  by (simp add: unlockBadge_def Let_def split: option.splits)

text \<open>
  Claim C6. Whenever \<open>find\<close> yields no badge with the id (the badge is unknown) or yields
  one that is already unlocked, \<open>unlockBadge\<close> returns \<open>null\<close> and the store it leaves is
  the store it was given, cumulative XP included. A second call for the same badge, right
  after any first call, is such a call: it returns \<open>null\<close> and changes nothing.
\<close>

theorem unlockBadge_noop:
  "((find (\<lambda>b. id_b b = badgeId) (badges state) = None
      \<or> (\<exists>b. find (\<lambda>b. id_b b = badgeId) (badges state) = Some b \<and> unlocked b))
     \<longrightarrow> unlockBadge now badgeId state = (None, state))
   \<and> unlockBadge now2 badgeId (snd (unlockBadge now badgeId state))
       = (None, snd (unlockBadge now badgeId state))
   \<and> xp (user (snd (unlockBadge now2 badgeId (snd (unlockBadge now badgeId state)))))
       = xp (user (snd (unlockBadge now badgeId state)))"
  by (auto simp: unlockBadge_def Let_def find_map_unlock_same split: option.splits)

theorem unlockBadge_noop_witness:
  "find (\<lambda>b. id_b b = ''no_such_badge'') (badges exampleState) = None
   \<and> unlockBadge ''2024-03-10T09:05:00.000Z'' ''no_such_badge'' exampleState = (None, exampleState)
   \<and> fst (unlockBadge ''2024-03-10T09:05:00.000Z'' ''quiz_master'' exampleState) \<noteq> None
   \<and> fst (unlockBadge ''2024-03-10T09:06:00.000Z'' ''quiz_master''
            (snd (unlockBadge ''2024-03-10T09:05:00.000Z'' ''quiz_master'' exampleState))) = None
   \<and> xp (user (snd (unlockBadge ''2024-03-10T09:06:00.000Z'' ''quiz_master''
            (snd (unlockBadge ''2024-03-10T09:05:00.000Z'' ''quiz_master'' exampleState))))) = 100"
proof -
  have unknown: "find (\<lambda>b. id_b b = ''no_such_badge'') (badges exampleState) = None"
    by (simp add: exampleState_def initialState_def find_BADGES_unknown)
  have first: "fst (unlockBadge ''2024-03-10T09:05:00.000Z'' ''quiz_master'' exampleState)
      = Some ((BADGES ! 2)\<lparr>unlocked := True\<rparr>)"
    "xp (user (snd (unlockBadge ''2024-03-10T09:05:00.000Z'' ''quiz_master'' exampleState))) = 100"
    by (simp_all add: unlockBadge_def exampleState_def initialState_def find_BADGES_quiz_master
        BADGES_quiz_master Let_def)
  show ?thesis
    using unknown first
      unlockBadge_noop [of "''no_such_badge''" exampleState "''2024-03-10T09:05:00.000Z''"]
      unlockBadge_noop [of "''quiz_master''" exampleState "''2024-03-10T09:05:00.000Z''"
        "''2024-03-10T09:06:00.000Z''"]
    by simp
qed

text \<open>
  Claim C7. For a badge that \<open>find\<close> yields and that is not yet unlocked, \<open>unlockBadge\<close>
  marks it unlocked in the store and records the timestamp there, appends its id to the
  user's badges, adds exactly its \<open>xpReward\<close> to cumulative XP (the streak and its
  multiplier play no part, whatever the streak is) and returns the badge with
  \<open>unlocked\<close> set.
\<close>

theorem unlockBadge_fresh:
  assumes "find (\<lambda>b. id_b b = badgeId) (badges state) = Some badge" and "\<not> unlocked badge"
  shows "fst (unlockBadge now badgeId state) = Some (badge\<lparr>unlocked := True\<rparr>)
       \<and> find (\<lambda>b. id_b b = badgeId) (badges (snd (unlockBadge now badgeId state)))
           = Some (badge\<lparr>unlocked := True, unlockedAt := Some now\<rparr>)
       \<and> xp (user (snd (unlockBadge now badgeId state))) = xp (user state) + xpReward_b badge
       \<and> badges_u (user (snd (unlockBadge now badgeId state))) = badges_u (user state) @ [badgeId]
       \<and> streak (user (snd (unlockBadge now badgeId state))) = streak (user state)"
  using assms by (simp add: unlockBadge_def Let_def find_map_unlock_same)

theorem unlockBadge_fresh_witness:
  "find (\<lambda>b. id_b b = ''quiz_master'') (badges (withStreak 30 exampleState)) = Some (BADGES ! 2)
   \<and> \<not> unlocked (BADGES ! 2)
   \<and> getStreakMultiplier (withStreak 30 exampleState) = 2
   \<and> xp (user (withStreak 30 exampleState)) = 0
   \<and> xp (user (snd (unlockBadge ''2024-03-10T09:05:00.000Z'' ''quiz_master''
                      (withStreak 30 exampleState)))) = 100
   \<and> fst (unlockBadge ''2024-03-10T09:05:00.000Z'' ''quiz_master'' (withStreak 30 exampleState))
       = Some ((BADGES ! 2)\<lparr>unlocked := True\<rparr>)"
proof -
  have f: "find (\<lambda>b. id_b b = ''quiz_master'') (badges (withStreak 30 exampleState))
      = Some (BADGES ! 2)"
    by (simp add: withStreak_def exampleState_def initialState_def find_BADGES_quiz_master)
  have m: "getStreakMultiplier (withStreak 30 exampleState) = 2"
    "xp (user (withStreak 30 exampleState)) = 0"
    by (simp_all add: getStreakMultiplier_def withStreak_def exampleState_def initialState_def)
  show ?thesis
    using unlockBadge_fresh [OF f BADGES_quiz_master(2), of "''2024-03-10T09:05:00.000Z''"] f m
    by (simp add: BADGES_quiz_master)
qed

section \<open>Levels\<close>

text \<open>
  For non-negative XP the level is fixed by two integer bounds: level \<open>k + 1\<close> is held
  from \<open>100 k\<^sup>2\<close> XP up to, but not including, \<open>100 (k + 1)\<^sup>2\<close> XP. The lemma also
  evaluates \<open>calculateLevel\<close> at a given number.
\<close>

lemma calculateLevel_eqI:
  assumes "0 \<le> k" and "100 * k\<^sup>2 \<le> x" and "x < 100 * (k + 1)\<^sup>2"
  shows "calculateLevel x = k + 1"
proof -
  let ?r = "real_of_int x / 100"
  have lo: "(real_of_int k)\<^sup>2 \<le> ?r"
  proof -
    have "real_of_int (100 * k\<^sup>2) \<le> real_of_int x"
      using assms(2) by (simp only: of_int_le_iff)
    then show ?thesis by simp
  qed
  have hi: "?r < (real_of_int k + 1)\<^sup>2"
  proof -
    have "real_of_int x < real_of_int (100 * (k + 1)\<^sup>2)"
      using assms(3) by (simp only: of_int_less_iff)
    then show ?thesis by simp
  qed
  have "real_of_int k \<le> sqrt ?r"
    using lo by (rule real_le_rsqrt)
  moreover have "sqrt ?r < real_of_int k + 1"
    using assms(1) hi by (intro real_less_lsqrt) auto
  ultimately have "\<lfloor>sqrt ?r\<rfloor> = k"
    by (simp add: floor_unique)
  then show ?thesis
    by (simp add: calculateLevel_def)
qed

lemma calculateLevel_values:
  "calculateLevel 0 = 1" "calculateLevel 50 = 1" "calculateLevel 93 = 1" "calculateLevel 99 = 1"
  "calculateLevel 100 = 2" "calculateLevel 8100 = 10" "calculateLevel 75 = 1"
  using calculateLevel_eqI [of 0 0] calculateLevel_eqI [of 0 50] calculateLevel_eqI [of 0 93]
    calculateLevel_eqI [of 0 99] calculateLevel_eqI [of 1 100] calculateLevel_eqI [of 9 8100]
    calculateLevel_eqI [of 0 75]
  by simp_all

lemma calculateLevel_le: "x \<le> y \<Longrightarrow> calculateLevel x \<le> calculateLevel y"
  unfolding calculateLevel_def
  by (intro add_right_mono floor_mono) (simp add: divide_right_mono)

lemma calculateLevel_ge_1: "0 \<le> x \<Longrightarrow> 1 \<le> calculateLevel x"
  unfolding calculateLevel_def by simp

lemma addXP_level:
  "level (user (snd (addXP now ty customAmount state)))
     = calculateLevel (xp (user state) + xpGained (fst (addXP now ty customAmount state)))"
  by (simp add: addXP_def Let_def unlockBadge_level)

text \<open>
  Claim C9. On non-negative XP the level function \<open>floor (sqrt (xp / 100)) + 1\<close> is
  monotonically non-decreasing, and its value is a positive integer.
\<close>

theorem calculateLevel_monotone:
  assumes "0 \<le> xp1" and "xp1 \<le> xp2"
  shows "calculateLevel xp1 \<le> calculateLevel xp2
       \<and> 1 \<le> calculateLevel xp1 \<and> 1 \<le> calculateLevel xp2"
  using assms calculateLevel_le [of xp1 xp2] calculateLevel_ge_1 [of xp1]
    calculateLevel_ge_1 [of xp2]
  by simp

theorem calculateLevel_monotone_witness:
  "(0::int) \<le> 99 \<and> (99::int) \<le> 100 \<and> calculateLevel 99 \<le> calculateLevel 100
   \<and> calculateLevel 99 = 1 \<and> calculateLevel 100 = 2"
  using calculateLevel_monotone [of 99 100] by (simp add: calculateLevel_values)

text \<open>
  Claim C10. A successful \<open>unlockBadge\<close> (the badge is found and was locked) adds the
  badge's reward to cumulative XP and leaves the stored level as it was: the level is
  written by \<open>addXP\<close> only. So right after it the stored level can be strictly below
  \<open>floor (sqrt (xp / 100)) + 1\<close> of the new XP; unlocking \<open>quiz_master\<close> (100 XP) on a
  new store is such a case (stored level 1, formula 2). \<open>updateStreak\<close>,
  \<open>incrementStat\<close> and \<open>resetDailyMissions\<close> leave the level as well, and \<open>addXP\<close>
  sets it to the formula's value for the XP it has just added up.
\<close>

theorem unlockBadge_keeps_level:
  "(find (\<lambda>b. id_b b = badgeId) (badges state) = Some badge \<and> \<not> unlocked badge
      \<longrightarrow> level (user (snd (unlockBadge now badgeId state))) = level (user state)
        \<and> xp (user (snd (unlockBadge now badgeId state))) = xp (user state) + xpReward_b badge)
   \<and> (\<exists>st bid b t. find (\<lambda>b. id_b b = bid) (badges st) = Some b \<and> \<not> unlocked b
         \<and> level (user (snd (unlockBadge t bid st)))
             < calculateLevel (xp (user (snd (unlockBadge t bid st)))))
   \<and> level (user (updateStreak today yesterdayStr now state)) = level (user state)
   \<and> level (user (incrementStat now stat state)) = level (user state)
   \<and> level (user (resetDailyMissions state)) = level (user state)
   \<and> level (user (snd (addXP now ty customAmount state)))
       = calculateLevel (xp (user state) + xpGained (fst (addXP now ty customAmount state)))"
proof -
  have "find (\<lambda>b. id_b b = ''quiz_master'') (badges exampleState) = Some (BADGES ! 2)"
    by (simp add: exampleState_def initialState_def find_BADGES_quiz_master)
  moreover have "level (user (snd (unlockBadge [] ''quiz_master'' exampleState))) = 1"
    by (simp add: unlockBadge_level exampleState_def initialState_def)
  moreover have "xp (user (snd (unlockBadge [] ''quiz_master'' exampleState))) = 100"
    by (simp add: unlockBadge_def exampleState_def initialState_def find_BADGES_quiz_master
        BADGES_quiz_master Let_def)
  ultimately have "\<exists>st bid b t. find (\<lambda>b. id_b b = bid) (badges st) = Some b \<and> \<not> unlocked b
         \<and> level (user (snd (unlockBadge t bid st)))
             < calculateLevel (xp (user (snd (unlockBadge t bid st))))"
    using BADGES_quiz_master(2) calculateLevel_values(5)
    by (intro exI [of _ exampleState] exI [of _ "''quiz_master''"] exI [of _ "BADGES ! 2"]
        exI [of _ "[]"]) simp
  moreover have "level (user (updateStreak today yesterdayStr now state)) = level (user state)"
    by (simp add: updateStreak_def Let_def unlockBadge_level)
  moreover have "level (user (incrementStat now stat state)) = level (user state)"
    by (simp add: incrementStat_def Let_def unlockBadge_level)
  moreover have "level (user (resetDailyMissions state)) = level (user state)"
    by (simp add: resetDailyMissions_def)
  ultimately show ?thesis
    by (simp add: unlockBadge_level unlockBadge_def Let_def addXP_level)
qed

theorem unlockBadge_keeps_level_witness:
  "find (\<lambda>b. id_b b = ''quiz_master'') (badges exampleState) = Some (BADGES ! 2)
   \<and> \<not> unlocked (BADGES ! 2)
   \<and> level (user exampleState) = 1
   \<and> level (user (snd (unlockBadge ''2024-03-10T09:05:00.000Z'' ''quiz_master'' exampleState))) = 1
   \<and> xp (user (snd (unlockBadge ''2024-03-10T09:05:00.000Z'' ''quiz_master'' exampleState))) = 100
   \<and> calculateLevel 100 = 2"
proof -
  have f: "find (\<lambda>b. id_b b = ''quiz_master'') (badges exampleState) = Some (BADGES ! 2)"
    by (simp add: exampleState_def initialState_def find_BADGES_quiz_master)
  have l: "level (user exampleState) = 1" "xp (user exampleState) = 0"
    by (simp_all add: exampleState_def initialState_def)
  show ?thesis
    using unlockBadge_keeps_level [of "''quiz_master''" exampleState "BADGES ! 2"
        "''2024-03-10T09:05:00.000Z''"] f l
    by (simp add: BADGES_quiz_master calculateLevel_values)
qed

section \<open>XP awards\<close>

text \<open>
  Claim C3. \<open>addXP\<close> returns \<open>xpGained = floor (baseAmount * multiplier)\<close>, where the base
  amount is the override when one is given and the entry of \<open>XP_REWARDS\<close> otherwise, and
  the multiplier is one of 1, 1.25, 1.5, 1.75 and 2, chosen by the streak: 2 from 30 days,
  1.75 from 14, 1.5 from 7, 1.25 from 3, and 1 below.
\<close>

theorem addXP_xpGained:
  "xpGained (fst (addXP now ty customAmount state))
     = \<lfloor>of_int (case customAmount of Some a \<Rightarrow> a | None \<Rightarrow> XP_REWARDS ty)
          * getStreakMultiplier state\<rfloor>
   \<and> getStreakMultiplier state \<in> {1, 5 / 4, 3 / 2, 7 / 4, 2}
   \<and> (30 \<le> streak (user state) \<longrightarrow> getStreakMultiplier state = 2)
   \<and> (14 \<le> streak (user state) \<and> streak (user state) < 30
        \<longrightarrow> getStreakMultiplier state = 7 / 4)
   \<and> (7 \<le> streak (user state) \<and> streak (user state) < 14
        \<longrightarrow> getStreakMultiplier state = 3 / 2)
   \<and> (3 \<le> streak (user state) \<and> streak (user state) < 7
        \<longrightarrow> getStreakMultiplier state = 5 / 4)
   \<and> (streak (user state) < 3 \<longrightarrow> getStreakMultiplier state = 1)"
  by (simp add: addXP_def Let_def getStreakMultiplier_def)

theorem addXP_xpGained_witness:
  "streak (user (withStreak 7 exampleState)) = 7
   \<and> getStreakMultiplier (withStreak 7 exampleState) = 3 / 2
   \<and> xpGained (fst (addXP ''2024-03-10T09:05:00.000Z'' correct_step None
                      (withStreak 7 exampleState))) = 15
   \<and> xpGained (fst (addXP ''2024-03-10T09:05:00.000Z'' correct_step (Some 20)
                      (withStreak 7 exampleState))) = 30
   \<and> xpGained (fst (addXP ''2024-03-10T09:05:00.000Z'' complete_quiz None exampleState)) = 50"
proof -
  have s: "streak (user (withStreak 7 exampleState)) = 7" "streak (user exampleState) = 0"
    by (simp_all add: withStreak_def exampleState_def initialState_def)
  have m: "getStreakMultiplier (withStreak 7 exampleState) = 3 / 2"
    "getStreakMultiplier exampleState = 1"
    by (simp_all add: getStreakMultiplier_def s)
  show ?thesis
    using
      addXP_xpGained [of "''2024-03-10T09:05:00.000Z''" correct_step None
        "withStreak 7 exampleState"]
      addXP_xpGained [of "''2024-03-10T09:05:00.000Z''" correct_step "Some 20"
        "withStreak 7 exampleState"]
      addXP_xpGained [of "''2024-03-10T09:05:00.000Z''" complete_quiz None exampleState]
    by (simp add: s m)
qed

section \<open>The daily streak\<close>

lemma unlockBadge_lastActiveDate:
  "lastActiveDate (user (snd (unlockBadge now badgeId state))) = lastActiveDate (user state)"
  by (simp add: unlockBadge_def Let_def split: option.splits)

lemma updateStreak_lastActiveDate:
  "lastActiveDate (user (updateStreak today yesterdayStr now state)) = today"
  by (simp add: updateStreak_def Let_def unlockBadge_lastActiveDate)

lemma updateStreak_streak:
  "streak (user (updateStreak today yesterdayStr now state)) =
     (if lastActiveDate (user state) = yesterdayStr then streak (user state) + 1
      else if lastActiveDate (user state) \<noteq> today then 1 else streak (user state))"
  by (simp add: updateStreak_def Let_def unlockBadge_streak)

text \<open>
  The two date strings do not always name consecutive days. \<open>today\<close> is the UTC date
  of the clock's instant. \<open>yesterdayStr\<close> is the UTC date of another instant: the one
  that \<open>setDate(getDate() - 1)\<close> reaches by stepping one day back in local time. Where
  the host's time zone changed its offset within that local day, the step is 23 or 25
  hours long.
  \<^item> America/New_York, clock at 2024-03-10T23:30Z (19:30 EDT on the evening after the
    clocks went forward): \<open>today\<close> is \<open>2024-03-10\<close>; one local day back is 19:30 EST on
    9 March, that is 2024-03-10T00:30Z, so \<open>yesterdayStr\<close> is \<open>2024-03-10\<close> as well.
  \<^item> America/New_York, clock at 2024-11-04T00:30Z (19:30 EST on the evening after the
    clocks went back): \<open>today\<close> is \<open>2024-11-04\<close>; one local day back is 19:30 EDT on
    2 November, that is 2024-11-02T23:30Z, so \<open>yesterdayStr\<close> is \<open>2024-11-02\<close>, two
    days before \<open>today\<close>.
  The theorems below run \<open>updateStreak\<close> on these values.
\<close>

text \<open>
  Claim C1 does not hold of the code. On the first evening above the test
  \<open>lastActive === yesterdayStr\<close> comes first and succeeds for a store that was already
  active today, so every call of that day adds 1 to the streak: for every state the
  second call leaves the streak one above what the first call left, and a store created
  that day goes from streak 0 to 1 to 2 with two calls. The source's own comment says of
  this case that the streak stays the same (already counted today).
\<close>

theorem updateStreak_same_day_increments:
  "streak (user (updateStreak today today now2 (updateStreak today today now state)))
     = streak (user (updateStreak today today now state)) + 1
   \<and> lastActiveDate (user exampleState) = ''2024-03-10''
   \<and> streak (user exampleState) = 0
   \<and> streak (user (updateStreak ''2024-03-10'' ''2024-03-10'' ''2024-03-10T23:30:00.000Z''
                     exampleState)) = 1
   \<and> streak (user (updateStreak ''2024-03-10'' ''2024-03-10'' ''2024-03-10T23:31:00.000Z''
                (updateStreak ''2024-03-10'' ''2024-03-10'' ''2024-03-10T23:30:00.000Z''
                   exampleState))) = 2
   \<and> lastActiveDate (user (updateStreak ''2024-03-10'' ''2024-03-10''
                ''2024-03-10T23:31:00.000Z''
                (updateStreak ''2024-03-10'' ''2024-03-10'' ''2024-03-10T23:30:00.000Z''
                   exampleState))) = ''2024-03-10''"
proof -
  have l: "lastActiveDate (user exampleState) = ''2024-03-10''" "streak (user exampleState) = 0"
    by (simp_all add: exampleState_def initialState_def)
  show ?thesis
    by (simp add: updateStreak_streak updateStreak_lastActiveDate l)
qed

text \<open>
  Claim C2 does not hold of the code either, by the same derivation of \<open>yesterdayStr\<close>.
  \<open>lastActiveDate\<close> is set to today in every case. But on the first evening above a
  store whose \<open>lastActiveDate\<close> is today (streak 5) gets streak 6 where the claim leaves
  it at 5; and on the second evening a store that was last active on 2024-11-03, the day
  before today (streak 5), is reset to 1 where the claim gives 6.
\<close>

theorem updateStreak_clock_cases:
  "lastActiveDate (user (updateStreak today yesterdayStr now state)) = today
   \<and> lastActiveDate (user (withStreak 5 exampleState)) = ''2024-03-10''
   \<and> streak (user (withStreak 5 exampleState)) = 5
   \<and> streak (user (updateStreak ''2024-03-10'' ''2024-03-10'' ''2024-03-10T23:30:00.000Z''
                     (withStreak 5 exampleState))) = 6
   \<and> lastActiveDate
         (user (withStreak 5 (initialState ''2024-11-03'' ''2024-11-03T15:00:00.000Z'')))
       = ''2024-11-03''
   \<and> streak (user (withStreak 5 (initialState ''2024-11-03'' ''2024-11-03T15:00:00.000Z''))) = 5
   \<and> streak (user (updateStreak ''2024-11-04'' ''2024-11-02'' ''2024-11-04T00:30:00.000Z''
                     (withStreak 5 (initialState ''2024-11-03'' ''2024-11-03T15:00:00.000Z''))))
       = 1"
proof -
  have l: "lastActiveDate (user (withStreak 5 exampleState)) = ''2024-03-10''"
    "streak (user (withStreak 5 exampleState)) = 5"
    "lastActiveDate
       (user (withStreak 5 (initialState ''2024-11-03'' ''2024-11-03T15:00:00.000Z'')))
     = ''2024-11-03''"
    "streak (user (withStreak 5 (initialState ''2024-11-03'' ''2024-11-03T15:00:00.000Z''))) = 5"
    by (simp_all add: withStreak_def exampleState_def initialState_def)
  show ?thesis
    by (simp add: updateStreak_streak updateStreak_lastActiveDate l)
qed

section \<open>Activity counters\<close>

lemma getStat_setStat_same: "getStat k (setStat k v st) = v"
  by (cases k) simp_all

lemma getStat_setStat_other: "k' \<noteq> k \<Longrightarrow> getStat k' (setStat k v st) = getStat k' st"
  by (cases k; cases k') simp_all

lemma incrementStat_refines:
  "incrementStat now stat state = incrementCounter_spec now stat state"
  by (cases stat) (simp_all add: incrementStat_def incrementCounter_spec_def Let_def)

lemma unlockBadge_stats: "stats (snd (unlockBadge now badgeId state)) = stats state"
  by (simp add: unlockBadge_def Let_def split: option.splits)

lemma unlockBadge_missions: "missions (snd (unlockBadge now badgeId state)) = missions state"
  by (simp add: unlockBadge_def Let_def split: option.splits)

lemma unlockBadge_find_other:
  "k \<noteq> badgeId \<Longrightarrow>
   find (\<lambda>b. id_b b = k) (badges (snd (unlockBadge now badgeId state)))
     = find (\<lambda>b. id_b b = k) (badges state)"
  by (simp add: unlockBadge_def Let_def find_map_unlock_other split: option.splits)

lemma unlockBadge_unlocked_noop:
  "find (\<lambda>b. id_b b = badgeId) (badges state) = Some b \<Longrightarrow> unlocked b \<Longrightarrow>
   unlockBadge now badgeId state = (None, state)"
  by (simp add: unlockBadge_def)

lemma unlockBadge_locked:
  "find (\<lambda>b. id_b b = badgeId) (badges state) = Some b \<Longrightarrow> \<not> unlocked b \<Longrightarrow>
   find (\<lambda>b. id_b b = badgeId) (badges (snd (unlockBadge now badgeId state)))
     = Some (b\<lparr>unlocked := True, unlockedAt := Some now\<rparr>)
   \<and> xp (user (snd (unlockBadge now badgeId state))) = xp (user state) + xpReward_b b"
  by (simp add: unlockBadge_def Let_def find_map_unlock_same)

lemma incrementStat_stats:
  "stats (incrementStat now stat state) = setStat stat (getStat stat (stats state) + 1) (stats state)"
  by (simp add: incrementStat_refines incrementCounter_spec_def Let_def unlockBadge_stats)

lemma incrementStat_below:
  "\<not> thresholdMet_spec stat (getStat stat (stats state) + 1) \<Longrightarrow>
   incrementStat now stat state
     = state\<lparr>stats := setStat stat (getStat stat (stats state) + 1) (stats state)\<rparr>"
  by (simp add: incrementStat_refines incrementCounter_spec_def Let_def getStat_setStat_same)

lemma incrementStat_unlocked:
  "find (\<lambda>b. id_b b = thresholdBadge_spec stat) (badges state) = Some b \<Longrightarrow> unlocked b \<Longrightarrow>
   incrementStat now stat state
     = state\<lparr>stats := setStat stat (getStat stat (stats state) + 1) (stats state)\<rparr>"
  by (simp add: incrementStat_refines incrementCounter_spec_def Let_def unlockBadge_unlocked_noop)

lemma incrementStat_unlocks:
  "thresholdMet_spec stat (getStat stat (stats state) + 1) \<Longrightarrow>
   find (\<lambda>b. id_b b = thresholdBadge_spec stat) (badges state) = Some b \<Longrightarrow> \<not> unlocked b \<Longrightarrow>
   find (\<lambda>b. id_b b = thresholdBadge_spec stat) (badges (incrementStat now stat state))
      = Some (b\<lparr>unlocked := True, unlockedAt := Some now\<rparr>)
   \<and> xp (user (incrementStat now stat state)) = xp (user state) + xpReward_b b"
  by (simp add: incrementStat_refines incrementCounter_spec_def Let_def getStat_setStat_same
      unlockBadge_locked)

lemma incrementStat_find_other:
  "k \<noteq> thresholdBadge_spec stat \<Longrightarrow>
   find (\<lambda>b. id_b b = k) (badges (incrementStat now stat state)) = find (\<lambda>b. id_b b = k) (badges state)"
  by (simp add: incrementStat_refines incrementCounter_spec_def Let_def unlockBadge_find_other)

text \<open>
  Claim C8. \<open>incrementStat\<close> is the specification's table: it adds exactly 1 to the
  named counter and to no other, and then tries to unlock the one badge of that counter
  when its rule holds of the new count (\<open>= 1\<close> for \<open>first_step\<close>, \<open>correct_step\<close>
  and \<open>study_planner\<close>; \<open>\<ge> 5\<close> for \<open>quiz_master\<close>, \<open>\<ge> 50\<close> for
  \<open>flashcard_fan\<close>, \<open>\<ge> 10\<close> for \<open>doubt_solver\<close>, \<open>\<ge> 5\<close> for
  \<open>ocr_explorer\<close>). No other badge changes. When the rule does not hold, badges and
  user stay as they were; when it holds and the badge is locked, the badge is unlocked
  and its reward is added to XP; when the badge is already unlocked, badges and user stay
  as they were, so a badge is awarded at most once (the sixth \<open>quizzesCompleted\<close>
  increment awards nothing).
\<close>

theorem incrementStat_thresholds:
  "incrementStat now stat state = incrementCounter_spec now stat state
   \<and> getStat stat (stats (incrementStat now stat state)) = getStat stat (stats state) + 1
   \<and> (\<forall>k. k \<noteq> stat \<longrightarrow> getStat k (stats (incrementStat now stat state)) = getStat k (stats state))
   \<and> (\<forall>k. k \<noteq> thresholdBadge_spec stat \<longrightarrow>
         find (\<lambda>b. id_b b = k) (badges (incrementStat now stat state))
           = find (\<lambda>b. id_b b = k) (badges state))
   \<and> (\<not> thresholdMet_spec stat (getStat stat (stats state) + 1) \<longrightarrow>
         badges (incrementStat now stat state) = badges state
         \<and> user (incrementStat now stat state) = user state)
   \<and> (\<forall>b. thresholdMet_spec stat (getStat stat (stats state) + 1)
           \<and> find (\<lambda>b. id_b b = thresholdBadge_spec stat) (badges state) = Some b \<and> \<not> unlocked b \<longrightarrow>
         find (\<lambda>b. id_b b = thresholdBadge_spec stat) (badges (incrementStat now stat state))
           = Some (b\<lparr>unlocked := True, unlockedAt := Some now\<rparr>)
         \<and> xp (user (incrementStat now stat state)) = xp (user state) + xpReward_b b)
   \<and> (\<forall>b. find (\<lambda>b. id_b b = thresholdBadge_spec stat) (badges state) = Some b \<and> unlocked b \<longrightarrow>
         badges (incrementStat now stat state) = badges state
         \<and> user (incrementStat now stat state) = user state)"
proof (intro conjI allI impI)
  show "incrementStat now stat state = incrementCounter_spec now stat state"
    by (rule incrementStat_refines)
  show "getStat stat (stats (incrementStat now stat state)) = getStat stat (stats state) + 1"
    by (simp add: incrementStat_stats getStat_setStat_same)
  show "getStat k (stats (incrementStat now stat state)) = getStat k (stats state)" if "k \<noteq> stat" for k
    using that by (simp add: incrementStat_stats getStat_setStat_other)
  show "find (\<lambda>b. id_b b = k) (badges (incrementStat now stat state)) = find (\<lambda>b. id_b b = k) (badges state)"
    if "k \<noteq> thresholdBadge_spec stat" for k
    using that by (rule incrementStat_find_other)
next
  assume "\<not> thresholdMet_spec stat (getStat stat (stats state) + 1)"
  then have e: "incrementStat now stat state
     = state\<lparr>stats := setStat stat (getStat stat (stats state) + 1) (stats state)\<rparr>"
    by (rule incrementStat_below)
  show "badges (incrementStat now stat state) = badges state" by (simp add: e)
  show "user (incrementStat now stat state) = user state" by (simp add: e)
next
  fix b
  assume a: "thresholdMet_spec stat (getStat stat (stats state) + 1)
           \<and> find (\<lambda>b. id_b b = thresholdBadge_spec stat) (badges state) = Some b \<and> \<not> unlocked b"
  then have r: "find (\<lambda>b. id_b b = thresholdBadge_spec stat) (badges (incrementStat now stat state))
      = Some (b\<lparr>unlocked := True, unlockedAt := Some now\<rparr>)
   \<and> xp (user (incrementStat now stat state)) = xp (user state) + xpReward_b b"
    by (intro incrementStat_unlocks) simp_all
  show "find (\<lambda>b. id_b b = thresholdBadge_spec stat) (badges (incrementStat now stat state))
      = Some (b\<lparr>unlocked := True, unlockedAt := Some now\<rparr>)" using r by simp
  show "xp (user (incrementStat now stat state)) = xp (user state) + xpReward_b b" using r by simp
next
  fix b
  assume a: "find (\<lambda>b. id_b b = thresholdBadge_spec stat) (badges state) = Some b \<and> unlocked b"
  then have e: "incrementStat now stat state
     = state\<lparr>stats := setStat stat (getStat stat (stats state) + 1) (stats state)\<rparr>"
    by (intro incrementStat_unlocked[of _ _ b]) simp_all
  show "badges (incrementStat now stat state) = badges state" by (simp add: e)
  show "user (incrementStat now stat state) = user state" by (simp add: e)
qed

lemma four_quizzes:
  "(incrementStat now QuizzesCompleted ^^ 4) exampleState
     = exampleState\<lparr>stats := (stats exampleState)\<lparr>quizzesCompleted := 4\<rparr>\<rparr>"
  by (simp add: eval_nat_numeral incrementStat_below exampleState_def initialState_def)

theorem incrementStat_thresholds_witness:
  "getStat QuizzesCompleted
      (stats ((incrementStat ''2024-03-10T09:05:00.000Z'' QuizzesCompleted ^^ 4) exampleState)) = 4
   \<and> find (\<lambda>b. id_b b = ''quiz_master'')
        (badges ((incrementStat ''2024-03-10T09:05:00.000Z'' QuizzesCompleted ^^ 4) exampleState))
       = Some (BADGES ! 2)
   \<and> \<not> unlocked (BADGES ! 2)
   \<and> xp (user ((incrementStat ''2024-03-10T09:05:00.000Z'' QuizzesCompleted ^^ 4) exampleState)) = 0
   \<and> thresholdMet_spec QuizzesCompleted 5
   \<and> xp (user ((incrementStat ''2024-03-10T09:05:00.000Z'' QuizzesCompleted ^^ 5) exampleState)) = 100
   \<and> find (\<lambda>b. id_b b = ''quiz_master'')
        (badges ((incrementStat ''2024-03-10T09:05:00.000Z'' QuizzesCompleted ^^ 5) exampleState))
       = Some ((BADGES ! 2)\<lparr>unlocked := True, unlockedAt := Some ''2024-03-10T09:05:00.000Z''\<rparr>)
   \<and> xp (user ((incrementStat ''2024-03-10T09:05:00.000Z'' QuizzesCompleted ^^ 6) exampleState)) = 100
   \<and> getStat QuizzesCompleted
      (stats ((incrementStat ''2024-03-10T09:05:00.000Z'' QuizzesCompleted ^^ 6) exampleState)) = 6"
proof -
  let ?inc = "incrementStat ''2024-03-10T09:05:00.000Z'' QuizzesCompleted"
  let ?q4 = "(?inc ^^ 4) exampleState"
  have s5: "(?inc ^^ 5) exampleState = ?inc ?q4" and s6: "(?inc ^^ 6) exampleState = ?inc (?inc ?q4)"
    by (simp_all add: eval_nat_numeral)
  have q4: "getStat QuizzesCompleted (stats ?q4) = 4"
    "find (\<lambda>b. id_b b = ''quiz_master'') (badges ?q4) = Some (BADGES ! 2)"
    "xp (user ?q4) = 0"
    unfolding four_quizzes
    by (simp_all add: exampleState_def initialState_def find_BADGES_quiz_master)
  have fifth:
    "find (\<lambda>b. id_b b = ''quiz_master'') (badges (?inc ?q4))
       = Some ((BADGES ! 2)\<lparr>unlocked := True, unlockedAt := Some ''2024-03-10T09:05:00.000Z''\<rparr>)"
    "xp (user (?inc ?q4)) = 100"
    "getStat QuizzesCompleted (stats (?inc ?q4)) = 5"
    using incrementStat_thresholds [of "''2024-03-10T09:05:00.000Z''" QuizzesCompleted ?q4,
        THEN conjunct2] q4
    by (simp_all add: BADGES_quiz_master)
  have sixth: "xp (user (?inc (?inc ?q4))) = 100"
    "getStat QuizzesCompleted (stats (?inc (?inc ?q4))) = 6"
    using incrementStat_thresholds [of "''2024-03-10T09:05:00.000Z''" QuizzesCompleted "?inc ?q4",
        THEN conjunct2] fifth
    by simp_all
  show ?thesis
    using q4 fifth sixth by (simp add: s5 s6 BADGES_quiz_master)
qed

section \<open>Daily missions\<close>

lemma missionCallback_eq:
  "missionCallback now ty amount m store =
     (missionStep ty amount m,
      if awardsXP ty amount m
      then snd (addXP now complete_mission (Some (xpReward_m m)) store) else store)"
  by (simp add: missionCallback_def missionStep_def awardsXP_def Let_def)

lemma mapMissions_fst:
  "fst (mapMissions now ty amount ms store) = map (missionStep ty amount) ms"
  by (induction ms arbitrary: store) (simp_all add: missionCallback_eq split_beta)

lemma mapMissions_append:
  "mapMissions now ty amount (xs @ ys) store =
     (fst (mapMissions now ty amount xs store)
        @ fst (mapMissions now ty amount ys (snd (mapMissions now ty amount xs store))),
      snd (mapMissions now ty amount ys (snd (mapMissions now ty amount xs store))))"
  by (induction xs arbitrary: store) (simp_all add: split_beta)

lemma mapMissions_other:
  "\<forall>m \<in> set ms. type_m m \<noteq> ty \<Longrightarrow> mapMissions now ty amount ms store = (ms, store)"
  by (induction ms arbitrary: store) (simp_all add: missionCallback_def)

lemma updateMissionProgress_missions:
  "missions (updateMissionProgress now ty amount state) = map (missionStep ty amount) (missions state)"
  using mapMissions_fst [of now ty amount "missions state" state]
  by (simp add: updateMissionProgress_def split_beta)

lemma runCalls_missions:
  "missions (runCalls now calls state) = map (missionAfter calls) (missions state)"
proof (induction calls arbitrary: state)
  case Nil
  then show ?case by simp
next
  case (Cons c calls)
  obtain ty amount where c: "c = (ty, amount)" by (cases c)
  show ?case
    by (simp add: c Cons.IH updateMissionProgress_missions)
qed

lemma missionStep_target: "target (missionStep ty amount m) = target m"
  by (simp add: missionStep_def)

lemma missionStep_xpReward: "xpReward_m (missionStep ty amount m) = xpReward_m m"
  by (simp add: missionStep_def)

lemma missionStep_wf: "wfMission m \<Longrightarrow> wfMission (missionStep ty amount m)"
  by (auto simp: wfMission_def missionStep_def)

lemma missionStep_completed:
  "completed (missionStep ty amount m) = (completed m \<or> awardsXP ty amount m)"
  by (auto simp: missionStep_def awardsXP_def)

lemma missionStep_progress:
  "wfMission m \<Longrightarrow> 0 \<le> amount \<Longrightarrow> progress m \<le> progress (missionStep ty amount m)"
  by (auto simp: wfMission_def missionStep_def)

lemma missionAfter_target: "target (missionAfter calls m) = target m"
  by (induction calls m rule: missionAfter.induct) (simp_all add: missionStep_target)

lemma missionAfter_wf: "wfMission m \<Longrightarrow> wfMission (missionAfter calls m)"
  by (induction calls m rule: missionAfter.induct) (simp_all add: missionStep_wf)

lemma missionAfter_completed: "completed m \<Longrightarrow> completed (missionAfter calls m)"
  by (induction calls m rule: missionAfter.induct) (simp_all add: missionStep_completed)

lemma missionAfter_append: "missionAfter (cs1 @ cs2) m = missionAfter cs2 (missionAfter cs1 m)"
  by (induction cs1 m rule: missionAfter.induct) simp_all

lemma missionAfter_progress:
  "wfMission m \<Longrightarrow> \<forall>c \<in> set calls. 0 \<le> snd c \<Longrightarrow> progress m \<le> progress (missionAfter calls m)"
proof (induction calls m rule: missionAfter.induct)
  case (1 m)
  then show ?case by simp
next
  case (2 ty amount calls m)
  have "progress m \<le> progress (missionStep ty amount m)"
    using 2 by (simp add: missionStep_progress)
  also have "\<dots> \<le> progress (missionAfter calls (missionStep ty amount m))"
    using 2 by (simp add: missionStep_wf)
  finally show ?case by simp
qed

lemma awardCount_completed:
  "awardCount calls m = (if completed (missionAfter calls m) \<and> \<not> completed m then 1 else 0)"
proof (induction calls m rule: awardCount.induct)
  case (1 m)
  then show ?case by simp
next
  case (2 ty amount calls m)
  show ?case
  proof (cases "awardsXP ty amount m")
    case True
    then have "completed (missionStep ty amount m)" "\<not> completed m"
      by (simp_all add: missionStep_completed awardsXP_def)
    then show ?thesis
      using True 2 by (simp add: missionAfter_completed)
  next
    case False
    then show ?thesis
      using 2 by (simp add: missionStep_completed)
  qed
qed

lemma awardCount_append:
  "awardCount (cs1 @ cs2) m = awardCount cs1 m + awardCount cs2 (missionAfter cs1 m)"
  by (induction cs1 m rule: awardCount.induct) simp_all

text \<open>
  Bookkeeping of XP. Cumulative XP together with the reward of the \<open>level_10\<close> badge
  that is still to be collected grows by exactly what \<open>addXP\<close> reports as gained: the
  only other source of XP inside \<open>addXP\<close> is that badge.
\<close>

lemma unlockBadge_xp:
  "xp (user (snd (unlockBadge now badgeId state))) = xp (user state) + pendingReward badgeId state"
  by (simp add: unlockBadge_def pendingReward_def Let_def split: option.splits)

lemma unlockBadge_pending:
  "pendingReward badgeId (snd (unlockBadge now badgeId state)) = 0"
  by (simp add: unlockBadge_def pendingReward_def Let_def find_map_unlock_same split: option.splits)

lemma pendingReward_user:
  "pendingReward badgeId (state\<lparr>user := u\<rparr>) = pendingReward badgeId state"
  by (simp add: pendingReward_def)

lemma pendingReward_missions:
  "pendingReward badgeId (state\<lparr>missions := ms\<rparr>) = pendingReward badgeId state"
  by (simp add: pendingReward_def)

lemma getStreakMultiplier_cong:
  "streak (user s') = streak (user s) \<Longrightarrow> getStreakMultiplier s' = getStreakMultiplier s"
  by (simp add: getStreakMultiplier_def)

lemma addXP_gained:
  "xpGained (fst (addXP now ty customAmount state))
     = \<lfloor>of_int (case customAmount of Some a \<Rightarrow> a | None \<Rightarrow> XP_REWARDS ty)
          * getStreakMultiplier state\<rfloor>"
  by (simp add: addXP_def Let_def)

lemma addXP_streak:
  "streak (user (snd (addXP now ty customAmount state))) = streak (user state)"
  by (simp add: addXP_def Let_def unlockBadge_streak)

lemma addXP_xp:
  "xp (user (snd (addXP now ty customAmount state)))
     = xp (user state) + xpGained (fst (addXP now ty customAmount state))
       + (if 10 \<le> calculateLevel (xp (user state) + xpGained (fst (addXP now ty customAmount state)))
          then pendingReward ''level_10'' state else 0)"
  by (simp add: addXP_def Let_def unlockBadge_xp pendingReward_user)

lemma addXP_pending:
  "pendingReward ''level_10'' (snd (addXP now ty customAmount state))
     = (if 10 \<le> calculateLevel (xp (user state) + xpGained (fst (addXP now ty customAmount state)))
        then 0 else pendingReward ''level_10'' state)"
  by (simp add: addXP_def Let_def unlockBadge_pending pendingReward_user)

lemma addXP_balance:
  "xp (user (snd (addXP now ty customAmount state)))
       + pendingReward ''level_10'' (snd (addXP now ty customAmount state))
     = xp (user state) + pendingReward ''level_10'' state
       + xpGained (fst (addXP now ty customAmount state))"
  by (simp add: addXP_xp addXP_pending)

lemma mapMissions_streak:
  "streak (user (snd (mapMissions now ty amount ms store))) = streak (user store)"
  by (induction ms arbitrary: store) (simp_all add: missionCallback_eq split_beta addXP_streak)

lemma updateMissionProgress_streak:
  "streak (user (updateMissionProgress now ty amount state)) = streak (user state)"
  by (simp add: updateMissionProgress_def split_beta mapMissions_streak)

lemma runCalls_streak: "streak (user (runCalls now calls state)) = streak (user state)"
  by (induction now calls state rule: runCalls.induct) (simp_all add: updateMissionProgress_streak)

lemma mapMissions_balance:
  "xp (user (snd (mapMissions now ty amount ms store)))
       + pendingReward ''level_10'' (snd (mapMissions now ty amount ms store))
     = xp (user store) + pendingReward ''level_10'' store
       + (\<Sum>m\<leftarrow>ms. if awardsXP ty amount m
                    then \<lfloor>of_int (xpReward_m m) * getStreakMultiplier store\<rfloor> else 0)"
proof (induction ms arbitrary: store)
  case Nil
  then show ?case by simp
next
  case (Cons m ms)
  let ?s1 = "snd (missionCallback now ty amount m store)"
  have mult: "getStreakMultiplier ?s1 = getStreakMultiplier store"
    by (intro getStreakMultiplier_cong) (simp add: missionCallback_eq addXP_streak)
  have step: "xp (user ?s1) + pendingReward ''level_10'' ?s1
      = xp (user store) + pendingReward ''level_10'' store
        + (if awardsXP ty amount m
           then \<lfloor>of_int (xpReward_m m) * getStreakMultiplier store\<rfloor> else 0)"
    by (simp add: missionCallback_eq addXP_balance addXP_gained)
  have "snd (mapMissions now ty amount (m # ms) store) = snd (mapMissions now ty amount ms ?s1)"
    by (simp add: split_beta)
  then show ?case
    using Cons.IH [of ?s1, unfolded mult] step by simp
qed

lemma updateMissionProgress_balance:
  "xp (user (updateMissionProgress now ty amount state))
       + pendingReward ''level_10'' (updateMissionProgress now ty amount state)
     = xp (user state) + pendingReward ''level_10'' state
       + (\<Sum>m\<leftarrow>missions state. if awardsXP ty amount m
                    then \<lfloor>of_int (xpReward_m m) * getStreakMultiplier state\<rfloor> else 0)"
  using mapMissions_balance [of now ty amount "missions state" state]
  by (simp add: updateMissionProgress_def split_beta pendingReward_missions)

lemma runCalls_balance:
  "xp (user (runCalls now calls state)) + pendingReward ''level_10'' (runCalls now calls state)
     = xp (user state) + pendingReward ''level_10'' state
       + (\<Sum>m\<leftarrow>missions state.
            int (awardCount calls m) * \<lfloor>of_int (xpReward_m m) * getStreakMultiplier state\<rfloor>)"
proof (induction calls arbitrary: state)
  case Nil
  then show ?case by simp
next
  case (Cons c calls)
  obtain ty amount where c: "c = (ty, amount)" by (cases c)
  let ?s1 = "updateMissionProgress now ty amount state"
  let ?g = "\<lambda>m. \<lfloor>of_int (xpReward_m m) * getStreakMultiplier state\<rfloor>"
  have mult: "getStreakMultiplier ?s1 = getStreakMultiplier state"
    by (intro getStreakMultiplier_cong) (rule updateMissionProgress_streak)
  have rest: "(\<Sum>m\<leftarrow>missions ?s1.
            int (awardCount calls m) * \<lfloor>of_int (xpReward_m m) * getStreakMultiplier ?s1\<rfloor>)
      = (\<Sum>m\<leftarrow>missions state. int (awardCount calls (missionStep ty amount m)) * ?g m)"
    by (simp add: updateMissionProgress_missions mult missionStep_xpReward o_def)
  have split: "(\<Sum>m\<leftarrow>missions state. int (awardCount ((ty, amount) # calls) m) * ?g m)
      = (\<Sum>m\<leftarrow>missions state. if awardsXP ty amount m then ?g m else 0)
        + (\<Sum>m\<leftarrow>missions state. int (awardCount calls (missionStep ty amount m)) * ?g m)"
    unfolding sum_list_addf [symmetric]
    by (intro arg_cong [where f = sum_list] map_cong refl) (simp add: algebra_simps)
  show ?case
    unfolding c runCalls.simps
    using Cons.IH [of ?s1] updateMissionProgress_balance [of now ty amount state] rest split
    by linarith
qed

lemma runCalls_append:
  "runCalls now (cs1 @ cs2) state = runCalls now cs2 (runCalls now cs1 state)"
  by (induction now cs1 state rule: runCalls.induct) simp_all

lemma runCalls_nth:
  "i < length (missions state) \<Longrightarrow>
   missions (runCalls now calls state) ! i = missionAfter calls (missions state ! i)"
  by (simp add: runCalls_missions)

lemma missionStep_completes:
  "type_m m = ty \<Longrightarrow> \<not> completed m \<Longrightarrow> target m \<le> progress m + amount \<Longrightarrow>
   missionStep ty amount m = m\<lparr>progress := target m, completed := True\<rparr> \<and> awardsXP ty amount m"
  by (simp add: missionStep_def awardsXP_def min_def)

lemma mission_award_low_streak:
  "streak (user state) < 3 \<Longrightarrow> \<lfloor>of_int r * getStreakMultiplier state\<rfloor> = r"
  by (simp add: getStreakMultiplier_def)

lemma updateMissionProgress_single:
  assumes "missions state = pre @ m # post"
    and "\<forall>m' \<in> set pre \<union> set post. type_m m' \<noteq> ty"
  shows "updateMissionProgress now ty amount state
     = (snd (missionCallback now ty amount m state))\<lparr>missions := pre @ missionStep ty amount m # post\<rparr>"
proof -
  have pre: "mapMissions now ty amount pre state = (pre, state)"
    using assms(2) by (intro mapMissions_other) simp
  have post: "mapMissions now ty amount post s = (post, s)" for s
    using assms(2) by (intro mapMissions_other) simp
  have "mapMissions now ty amount (pre @ m # post) state
      = (pre @ missionStep ty amount m # post, snd (missionCallback now ty amount m state))"
    by (simp add: mapMissions_append pre post split_beta missionCallback_eq)
  then show ?thesis
    by (simp add: updateMissionProgress_def assms(1))
qed

lemma DAILY_MISSIONS_split:
  "DAILY_MISSIONS = [] @ (DAILY_MISSIONS ! 0) # tl DAILY_MISSIONS"
  by (simp add: DAILY_MISSIONS_def)

lemma DAILY_MISSIONS_quiz:
  "type_m (DAILY_MISSIONS ! 0) = Quiz" "\<not> completed (DAILY_MISSIONS ! 0)"
  "target (DAILY_MISSIONS ! 0) = 2" "progress (DAILY_MISSIONS ! 0) = 0"
  "xpReward_m (DAILY_MISSIONS ! 0) = 75"
  "\<forall>m' \<in> set [] \<union> set (tl DAILY_MISSIONS). type_m m' \<noteq> Quiz"
  by (simp_all add: DAILY_MISSIONS_def mkMission_def)

lemma withStreak_fields:
  "missions (withStreak n state) = missions state" "badges (withStreak n state) = badges state"
  "xp (user (withStreak n state)) = xp (user state)" "streak (user (withStreak n state)) = n"
  "level (user (withStreak n state)) = level (user state)"
  by (simp_all add: withStreak_def)

lemma exampleState_fields:
  "missions exampleState = DAILY_MISSIONS" "badges exampleState = BADGES"
  "xp (user exampleState) = 0" "streak (user exampleState) = 0" "level (user exampleState) = 1"
  by (simp_all add: exampleState_def initialState_def)

text \<open>The floor of a reward times the multiplier, in whole numbers.\<close>

lemma floor_twice: "\<lfloor>rat_of_int r * 2\<rfloor> = 2 * r"
proof -
  have "rat_of_int r * 2 = of_int (2 * r)"
    by simp
  then show ?thesis
    by (simp only: floor_of_int)
qed

lemma floor_quarters:
  "\<lfloor>rat_of_int r * 7 / 4\<rfloor> = (7 * r) div 4"
  "\<lfloor>rat_of_int r * 3 / 2\<rfloor> = (3 * r) div 2"
  "\<lfloor>rat_of_int r * 5 / 4\<rfloor> = (5 * r) div 4"
proof -
  have "rat_of_int r * 7 / 4 = of_int (7 * r) / of_int 4"
    "rat_of_int r * 3 / 2 = of_int (3 * r) / of_int 2"
    "rat_of_int r * 5 / 4 = of_int (5 * r) / of_int 4"
    by simp_all
  then show "\<lfloor>rat_of_int r * 7 / 4\<rfloor> = (7 * r) div 4"
    "\<lfloor>rat_of_int r * 3 / 2\<rfloor> = (3 * r) div 2"
    "\<lfloor>rat_of_int r * 5 / 4\<rfloor> = (5 * r) div 4"
    by (simp_all only: floor_divide_of_int_eq)
qed

lemma award_by_tier:
  "\<lfloor>of_int r * getStreakMultiplier state\<rfloor> =
     (if 30 \<le> streak (user state) then 2 * r
      else if 14 \<le> streak (user state) then (7 * r) div 4
      else if 7 \<le> streak (user state) then (3 * r) div 2
      else if 3 \<le> streak (user state) then (5 * r) div 4
      else r)"
  by (simp add: getStreakMultiplier_def floor_quarters floor_twice)

text \<open>
  Claim C4, as amended. When a call makes a not yet completed mission of the category
  reach its target, the mission is stored completed with progress at the target, and the
  callback calls \<open>addXP\<close> with the mission's \<open>xpReward\<close> as the override. The XP gained
  is \<open>floor (xpReward * multiplier)\<close> at the streak of the store: the streak multiplier
  applies to mission rewards as to every \<open>addXP\<close>. It is \<open>xpReward\<close> itself when the
  streak is below 3, and \<open>5 * xpReward div 4\<close>, \<open>3 * xpReward div 2\<close>,
  \<open>7 * xpReward div 4\<close> and \<open>2 * xpReward\<close> from streaks of 3, 7, 14 and 30 days.
  Cumulative XP grows in that callback by the gained XP, and by the reward of the
  \<open>level_10\<close> badge when this award brings the level to 10 or more while that badge is
  locked; where the mission is the only one of its category, that is the growth over the
  whole call.
\<close>

theorem updateMissionProgress_completion:
  assumes "missions state = pre @ m # post"
    and "type_m m = ty" and "\<not> completed m" and "target m \<le> progress m + amount"
  shows "missions (updateMissionProgress now ty amount state) ! length pre
           = m\<lparr>progress := target m, completed := True\<rparr>
       \<and> missionCallback now ty amount m (snd (mapMissions now ty amount pre state))
           = (m\<lparr>progress := target m, completed := True\<rparr>,
              snd (addXP now complete_mission (Some (xpReward_m m))
                     (snd (mapMissions now ty amount pre state))))
       \<and> xpGained (fst (addXP now complete_mission (Some (xpReward_m m))
                           (snd (mapMissions now ty amount pre state))))
           = \<lfloor>of_int (xpReward_m m) * getStreakMultiplier state\<rfloor>
       \<and> xp (user (snd (missionCallback now ty amount m
                             (snd (mapMissions now ty amount pre state)))))
           = xp (user (snd (mapMissions now ty amount pre state)))
             + \<lfloor>of_int (xpReward_m m) * getStreakMultiplier state\<rfloor>
             + (if 10 \<le> calculateLevel
                   (xp (user (snd (mapMissions now ty amount pre state)))
                    + \<lfloor>of_int (xpReward_m m) * getStreakMultiplier state\<rfloor>)
                then pendingReward ''level_10'' (snd (mapMissions now ty amount pre state))
                else 0)
       \<and> (streak (user state) < 3
            \<longrightarrow> \<lfloor>of_int (xpReward_m m) * getStreakMultiplier state\<rfloor> = xpReward_m m)
       \<and> \<lfloor>of_int (xpReward_m m) * getStreakMultiplier state\<rfloor>
           = (if 30 \<le> streak (user state) then 2 * xpReward_m m
              else if 14 \<le> streak (user state) then (7 * xpReward_m m) div 4
              else if 7 \<le> streak (user state) then (3 * xpReward_m m) div 2
              else if 3 \<le> streak (user state) then (5 * xpReward_m m) div 4
              else xpReward_m m)
       \<and> ((\<forall>m' \<in> set pre \<union> set post. type_m m' \<noteq> ty)
            \<longrightarrow> xp (user (updateMissionProgress now ty amount state))
                  = xp (user state) + \<lfloor>of_int (xpReward_m m) * getStreakMultiplier state\<rfloor>
                    + (if 10 \<le> calculateLevel
                          (xp (user state) + \<lfloor>of_int (xpReward_m m) * getStreakMultiplier state\<rfloor>)
                       then pendingReward ''level_10'' state else 0))"
proof -
  let ?store = "snd (mapMissions now ty amount pre state)"
  note step = missionStep_completes [OF assms(2,3,4)]
  have mult: "getStreakMultiplier ?store = getStreakMultiplier state"
    by (intro getStreakMultiplier_cong) (rule mapMissions_streak)
  have a: "missions (updateMissionProgress now ty amount state) ! length pre
           = m\<lparr>progress := target m, completed := True\<rparr>"
    by (simp add: updateMissionProgress_missions assms(1) nth_append step)
  have b: "missionCallback now ty amount m ?store
           = (m\<lparr>progress := target m, completed := True\<rparr>,
              snd (addXP now complete_mission (Some (xpReward_m m)) ?store))"
    by (simp add: missionCallback_eq step)
  have c: "xpGained (fst (addXP now complete_mission (Some (xpReward_m m)) ?store))
           = \<lfloor>of_int (xpReward_m m) * getStreakMultiplier state\<rfloor>"
    by (simp add: addXP_gained mult)
  have c': "xp (user (snd (missionCallback now ty amount m ?store)))
           = xp (user ?store) + \<lfloor>of_int (xpReward_m m) * getStreakMultiplier state\<rfloor>
             + (if 10 \<le> calculateLevel
                   (xp (user ?store) + \<lfloor>of_int (xpReward_m m) * getStreakMultiplier state\<rfloor>)
                then pendingReward ''level_10'' ?store else 0)"
    by (simp add: missionCallback_eq step addXP_xp addXP_gained mult)
  have d: "streak (user state) < 3
            \<longrightarrow> \<lfloor>of_int (xpReward_m m) * getStreakMultiplier state\<rfloor> = xpReward_m m"
    by (simp add: mission_award_low_streak)
  have e: "xp (user (updateMissionProgress now ty amount state))
                  = xp (user state) + \<lfloor>of_int (xpReward_m m) * getStreakMultiplier state\<rfloor>
                    + (if 10 \<le> calculateLevel
                          (xp (user state) + \<lfloor>of_int (xpReward_m m) * getStreakMultiplier state\<rfloor>)
                       then pendingReward ''level_10'' state else 0)"
    if "\<forall>m' \<in> set pre \<union> set post. type_m m' \<noteq> ty"
    using updateMissionProgress_single [OF assms(1) that, of now amount]
    by (simp add: missionCallback_eq step addXP_xp addXP_gained)
  show ?thesis
    using a b c c' d e award_by_tier [of "xpReward_m m" state] by blast
qed

theorem updateMissionProgress_completion_witness:
  "missions (withStreak 3 exampleState) = [] @ (DAILY_MISSIONS ! 0) # tl DAILY_MISSIONS
   \<and> type_m (DAILY_MISSIONS ! 0) = Quiz \<and> \<not> completed (DAILY_MISSIONS ! 0)
   \<and> target (DAILY_MISSIONS ! 0) \<le> progress (DAILY_MISSIONS ! 0) + 2
   \<and> xpReward_m (DAILY_MISSIONS ! 0) = 75
   \<and> completed (missions (updateMissionProgress ''2024-03-10T09:05:00.000Z'' Quiz 2
                             (withStreak 3 exampleState)) ! 0)
   \<and> xp (user (withStreak 3 exampleState)) = 0
   \<and> xp (user (updateMissionProgress ''2024-03-10T09:05:00.000Z'' Quiz 2
                  (withStreak 3 exampleState))) = 93
   \<and> xp (user (updateMissionProgress ''2024-03-10T09:05:00.000Z'' Quiz 2 exampleState)) = 75"
proof -
  have m3: "getStreakMultiplier (withStreak 3 exampleState) = 5 / 4"
    and m0: "getStreakMultiplier exampleState = 1"
    by (simp_all add: getStreakMultiplier_def withStreak_fields exampleState_fields)
  have ms: "missions (withStreak 3 exampleState) = [] @ (DAILY_MISSIONS ! 0) # tl DAILY_MISSIONS"
    "missions exampleState = [] @ (DAILY_MISSIONS ! 0) # tl DAILY_MISSIONS"
    using DAILY_MISSIONS_split by (simp_all only: withStreak_fields exampleState_fields)
  have t: "target (DAILY_MISSIONS ! 0) \<le> progress (DAILY_MISSIONS ! 0) + 2"
    by (simp add: DAILY_MISSIONS_quiz)
  have f: "(\<lfloor>375 / 4 :: rat\<rfloor> :: int) = 93"
    by (rule floor_unique) simp_all
  show ?thesis
    using
      updateMissionProgress_completion [OF ms(1) DAILY_MISSIONS_quiz(1,2) t,
        of "''2024-03-10T09:05:00.000Z''"]
      updateMissionProgress_completion [OF ms(2) DAILY_MISSIONS_quiz(1,2) t,
        of "''2024-03-10T09:05:00.000Z''"]
      DAILY_MISSIONS_quiz(6)
    by (simp add: m3 m0 f DAILY_MISSIONS_quiz(1-5) ms withStreak_fields exampleState_fields
        calculateLevel_values)
qed

text \<open>
  Claim C4 as stated fails: with a streak of 3 days the completed quiz mission
  (\<open>xpReward\<close> 75) adds \<open>floor (75 * 1.25) = 93\<close> XP, not 75.
\<close>

theorem mission_award_counterexample:
  "type_m (missions (withStreak 3 exampleState) ! 0) = Quiz
   \<and> \<not> completed (missions (withStreak 3 exampleState) ! 0)
   \<and> xpReward_m (missions (withStreak 3 exampleState) ! 0) = 75
   \<and> completed (missions (updateMissionProgress ''2024-03-10T09:05:00.000Z'' Quiz 2
                             (withStreak 3 exampleState)) ! 0)
   \<and> xp (user (updateMissionProgress ''2024-03-10T09:05:00.000Z'' Quiz 2
                  (withStreak 3 exampleState)))
       - xp (user (withStreak 3 exampleState)) = 93"
proof -
  let ?s = "withStreak 3 exampleState"
  let ?s' = "updateMissionProgress ''2024-03-10T09:05:00.000Z'' Quiz 2 ?s"
  have ms: "missions ?s = [] @ (DAILY_MISSIONS ! 0) # tl DAILY_MISSIONS"
    using DAILY_MISSIONS_split by (simp only: withStreak_fields exampleState_fields)
  have m3: "getStreakMultiplier ?s = 5 / 4"
    by (simp add: getStreakMultiplier_def withStreak_fields)
  have f: "(\<lfloor>375 / 4 :: rat\<rfloor> :: int) = 93"
    by (rule floor_unique) simp_all
  have step: "missionStep Quiz 2 (DAILY_MISSIONS ! 0)
      = (DAILY_MISSIONS ! 0)\<lparr>progress := target (DAILY_MISSIONS ! 0), completed := True\<rparr>"
    "awardsXP Quiz 2 (DAILY_MISSIONS ! 0)"
    using missionStep_completes [of "DAILY_MISSIONS ! 0" Quiz 2]
    by (simp_all add: DAILY_MISSIONS_quiz)
  have s': "?s' = (snd (missionCallback ''2024-03-10T09:05:00.000Z'' Quiz 2 (DAILY_MISSIONS ! 0) ?s))
      \<lparr>missions := [] @ missionStep Quiz 2 (DAILY_MISSIONS ! 0) # tl DAILY_MISSIONS\<rparr>"
    using ms DAILY_MISSIONS_quiz(6) by (rule updateMissionProgress_single)
  have "xp (user ?s') = 93"
    unfolding s'
    by (simp add: missionCallback_eq step addXP_xp addXP_gained m3 f DAILY_MISSIONS_quiz
        withStreak_fields exampleState_fields calculateLevel_values)
  moreover have "completed (missions ?s' ! 0)"
    unfolding s' by (simp add: step)
  ultimately show ?thesis
    by (simp add: withStreak_fields exampleState_fields DAILY_MISSIONS_quiz)
qed

lemma DAILY_MISSIONS_wf: "\<forall>m \<in> set DAILY_MISSIONS. wfMission m"
  by (simp add: DAILY_MISSIONS_def mkMission_def wfMission_def)

lemma missionAfter_enough:
  "wfMission m \<Longrightarrow> \<not> completed m \<Longrightarrow> target m \<le> progress m + int n \<Longrightarrow>
   completed (missionAfter (replicate n (type_m m, 1)) m)"
proof (induction n arbitrary: m)
  case 0
  then show ?case by (simp add: wfMission_def)
next
  case (Suc n)
  let ?m1 = "missionStep (type_m m) 1 m"
  show ?case
  proof (cases "completed ?m1")
    case True
    then show ?thesis by (simp add: missionAfter_completed)
  next
    case False
    then have "progress ?m1 = progress m + 1" "type_m ?m1 = type_m m"
      using Suc.prems(2) by (auto simp: missionStep_def min_def split: if_splits)
    moreover have "wfMission ?m1"
      using Suc.prems(1) by (rule missionStep_wf)
    ultimately have "completed (missionAfter (replicate n (type_m ?m1, 1)) ?m1)"
      using False Suc.prems(3) by (intro Suc.IH) (simp_all add: missionStep_target)
    then show ?thesis
      using \<open>type_m ?m1 = type_m m\<close> by simp
  qed
qed

lemma resetDailyMissions_wf: "list_all wfMission (missions (resetDailyMissions state))"
  by (simp add: resetDailyMissions_def DAILY_MISSIONS_def mkMission_def wfMission_def)

text \<open>
  Claim C5, as amended. The invariant of a mission is \<open>wfMission\<close>: progress within the
  target, and completed exactly when progress is at the target. It holds of every mission
  that \<open>resetDailyMissions\<close> creates. Take a mission of the store for which it holds,
  and any sequence of \<open>updateMissionProgress\<close> calls of one day. After the calls it holds
  again, so progress never exceeds the target and the mission is completed exactly when
  progress has reached the target; the target is unchanged. If no call has a negative
  amount, progress never decreases: after any first part of the calls it is at most what
  it is after all of them. The callback calls \<open>addXP\<close> exactly when \<open>awardsXP\<close> holds,
  and over the calls that happens once if the mission went from not completed to
  completed and never otherwise; calls after completion add nothing to the count. Calls
  of amount 1 in the mission's category, as many as the target asks for or more, end with
  the mission completed and exactly one award. Cumulative XP (with the \<open>level_10\<close>
  reward still to be collected) grows by exactly one award
  \<open>floor (xpReward * multiplier)\<close> per counted completion.
\<close>

theorem missions_within_day:
  assumes "i < length (missions state)" and "wfMission (missions state ! i)"
  shows "wfMission (missions (runCalls now calls state) ! i)
       \<and> target (missions (runCalls now calls state) ! i) = target (missions state ! i)
       \<and> ((\<forall>c \<in> set calls. 0 \<le> snd c) \<longrightarrow>
            (\<forall>cs1 cs2. calls = cs1 @ cs2 \<longrightarrow>
               progress (missions (runCalls now cs1 state) ! i)
                 \<le> progress (missions (runCalls now calls state) ! i)))
       \<and> awardCount calls (missions state ! i)
           = (if completed (missions (runCalls now calls state) ! i)
                 \<and> \<not> completed (missions state ! i) then 1 else 0)
       \<and> (\<forall>more. completed (missions (runCalls now calls state) ! i) \<longrightarrow>
             awardCount (calls @ more) (missions state ! i) = awardCount calls (missions state ! i))
       \<and> (\<forall>n. \<not> completed (missions state ! i)
               \<and> target (missions state ! i) \<le> progress (missions state ! i) + int n \<longrightarrow>
             completed (missions (runCalls now
                          (replicate n (type_m (missions state ! i), 1)) state) ! i)
             \<and> awardCount (replicate n (type_m (missions state ! i), 1)) (missions state ! i) = 1)
       \<and> list_all wfMission (missions (resetDailyMissions state))
       \<and> (\<forall>ty amount m store.
             snd (missionCallback now ty amount m store)
               = (if awardsXP ty amount m
                  then snd (addXP now complete_mission (Some (xpReward_m m)) store) else store))
       \<and> xp (user (runCalls now calls state)) + pendingReward ''level_10'' (runCalls now calls state)
           = xp (user state) + pendingReward ''level_10'' state
             + (\<Sum>m\<leftarrow>missions state.
                  int (awardCount calls m) * \<lfloor>of_int (xpReward_m m) * getStreakMultiplier state\<rfloor>)"
proof -
  let ?m = "missions state ! i"
  have nth: "missions (runCalls now cs state) ! i = missionAfter cs ?m" for cs
    using assms(1) by (rule runCalls_nth)
  have a: "wfMission (missions (runCalls now calls state) ! i)"
    using assms(2) by (simp add: nth missionAfter_wf)
  have b: "target (missions (runCalls now calls state) ! i) = target ?m"
    by (simp add: nth missionAfter_target)
  have c: "progress (missions (runCalls now cs1 state) ! i)
             \<le> progress (missions (runCalls now calls state) ! i)"
    if "\<forall>c \<in> set calls. 0 \<le> snd c" and "calls = cs1 @ cs2" for cs1 cs2
  proof -
    have "wfMission (missionAfter cs1 ?m)"
      using assms(2) by (rule missionAfter_wf)
    moreover have "\<forall>c \<in> set cs2. 0 \<le> snd c"
      using that by simp
    ultimately have "progress (missionAfter cs1 ?m) \<le> progress (missionAfter cs2 (missionAfter cs1 ?m))"
      by (rule missionAfter_progress)
    then show ?thesis
      by (simp add: nth that(2) missionAfter_append)
  qed
  have d: "awardCount calls ?m
           = (if completed (missions (runCalls now calls state) ! i) \<and> \<not> completed ?m then 1 else 0)"
    by (simp only: nth awardCount_completed)
  have e: "awardCount (calls @ more) ?m = awardCount calls ?m"
    if "completed (missions (runCalls now calls state) ! i)" for more
    using that by (simp add: nth awardCount_append awardCount_completed [of more])
  have f: "snd (missionCallback now ty amount m store)
               = (if awardsXP ty amount m
                  then snd (addXP now complete_mission (Some (xpReward_m m)) store) else store)"
    for ty amount m store
    by (simp add: missionCallback_eq)
  have g: "completed (missions (runCalls now (replicate n (type_m ?m, 1)) state) ! i)
           \<and> awardCount (replicate n (type_m ?m, 1)) ?m = 1"
    if "\<not> completed ?m \<and> target ?m \<le> progress ?m + int n" for n
  proof -
    have "completed (missionAfter (replicate n (type_m ?m, 1)) ?m)"
      using assms(2) that by (intro missionAfter_enough) simp_all
    then show ?thesis
      using that by (simp add: nth awardCount_completed)
  qed
  have h: "list_all wfMission (missions (resetDailyMissions state))"
    by (rule resetDailyMissions_wf)
  show ?thesis
    using a b c d e f g h runCalls_balance [of now calls state] by blast
qed

lemma three_quizzes_xp:
  "xp (user (runCalls now [(Quiz, 1), (Quiz, 1), (Quiz, 1)] exampleState)) = 75"
  by (simp add: updateMissionProgress_def missionCallback_def addXP_def Let_def
      exampleState_def initialState_def DAILY_MISSIONS_def mkMission_def getStreakMultiplier_def
      calculateLevel_values)

theorem missions_within_day_witness:
  "0 < length (missions exampleState)
   \<and> wfMission (missions exampleState ! 0)
   \<and> list_all (\<lambda>c. 0 \<le> snd c) [(Quiz, 1), (Quiz, 1), (Quiz, 1 :: int)]
   \<and> target (missions exampleState ! 0) = 2
   \<and> progress (missions (runCalls ''2024-03-10T09:05:00.000Z'' [(Quiz, 1)] exampleState) ! 0) = 1
   \<and> progress (missions (runCalls ''2024-03-10T09:05:00.000Z''
                            [(Quiz, 1), (Quiz, 1), (Quiz, 1)] exampleState) ! 0) = 2
   \<and> completed (missions (runCalls ''2024-03-10T09:05:00.000Z''
                            [(Quiz, 1), (Quiz, 1), (Quiz, 1)] exampleState) ! 0)
   \<and> awardCount [(Quiz, 1), (Quiz, 1), (Quiz, 1)] (missions exampleState ! 0) = 1
   \<and> awardCount [(Quiz, 1), (Quiz, 1)] (missions exampleState ! 0) = 1
   \<and> awardCount [(Quiz, 1)] (missions exampleState ! 0) = 0
   \<and> xp (user exampleState) = 0
   \<and> xp (user (runCalls ''2024-03-10T09:05:00.000Z''
                  [(Quiz, 1), (Quiz, 1), (Quiz, 1)] exampleState)) = 75"
proof -
  let ?now = "''2024-03-10T09:05:00.000Z''"
  let ?m = "missions exampleState ! 0"
  have len: "0 < length (missions exampleState)"
    by (simp add: exampleState_fields DAILY_MISSIONS_def)
  have wf: "wfMission ?m"
    using DAILY_MISSIONS_wf by (simp add: exampleState_fields DAILY_MISSIONS_def)
  have m: "?m = DAILY_MISSIONS ! 0"
    by (simp add: exampleState_fields)
  have after: "progress (missionAfter [(Quiz, 1)] ?m) = 1"
    "progress (missionAfter [(Quiz, 1), (Quiz, 1), (Quiz, 1)] ?m) = 2"
    "completed (missionAfter [(Quiz, 1), (Quiz, 1), (Quiz, 1)] ?m)"
    "completed (missionAfter [(Quiz, 1), (Quiz, 1)] ?m)"
    "\<not> completed (missionAfter [(Quiz, 1)] ?m)"
    "\<not> completed ?m"
    by (simp_all add: m missionStep_def DAILY_MISSIONS_quiz)
  note t1 = missions_within_day [OF len wf, of ?now "[(Quiz, 1)]"]
  note t2 = missions_within_day [OF len wf, of ?now "[(Quiz, 1), (Quiz, 1)]"]
  note t3 = missions_within_day [OF len wf, of ?now "[(Quiz, 1), (Quiz, 1), (Quiz, 1)]"]
  have nth: "missions (runCalls ?now cs exampleState) ! 0 = missionAfter cs ?m" for cs
    using len by (rule runCalls_nth)
  have c1: "awardCount [(Quiz, 1)] ?m = 0"
    using t1 after by (simp only: nth) simp
  have c2: "awardCount [(Quiz, 1), (Quiz, 1)] ?m = 1"
    using t2 after by (simp only: nth) simp
  have c3: "awardCount [(Quiz, 1), (Quiz, 1), (Quiz, 1)] ?m = 1"
    using t3 after by (simp only: nth) simp
  show ?thesis
    unfolding nth three_quizzes_xp
    using len wf c1 c2 c3 after
    by (simp add: exampleState_fields DAILY_MISSIONS_quiz)
qed

text \<open>
  Claim C5 as stated fails for a negative amount: after one quiz the mission's progress is
  1, and \<open>updateMissionProgress('quiz', -1)\<close> takes it back to 0.
\<close>

theorem mission_progress_counterexample:
  "progress (missions (runCalls ''2024-03-10T09:05:00.000Z'' [(Quiz, 1)] exampleState) ! 0) = 1
   \<and> progress (missions (runCalls ''2024-03-10T09:05:00.000Z''
                            [(Quiz, 1), (Quiz, - 1)] exampleState) ! 0) = 0"
proof -
  have len: "0 < length (missions exampleState)"
    by (simp add: exampleState_fields DAILY_MISSIONS_def)
  have nth: "missions (runCalls ''2024-03-10T09:05:00.000Z'' cs exampleState) ! 0
      = missionAfter cs (DAILY_MISSIONS ! 0)" for cs
    using runCalls_nth [OF len] by (simp add: exampleState_fields)
  show ?thesis
    unfolding nth by (simp add: missionStep_def DAILY_MISSIONS_quiz)
qed

end
